theory Spec2Isabelle
  imports Main
begin

section \<open>Python strings and dictionaries\<close>

text \<open>
  A Python \<open>str\<close> is modelled as a \<open>string\<close>, one \<open>char\<close> per code point; the
  characters of HOL cover the code points 0 to 255.  The string methods used by
  the sources are written out below on that range.
\<close>

text \<open>\<open>str.isspace\<close> on one character: the code points that \<open>strip\<close> and
  \<open>rstrip\<close> remove when called without an argument.\<close>

definition is_space :: "char \<Rightarrow> bool" where
  "is_space c =
     (let n = (of_char c :: nat)
      in (9 \<le> n \<and> n \<le> 13) \<or> (28 \<le> n \<and> n \<le> 32) \<or> n = 133 \<or> n = 160)"

text \<open>\<open>str.lower\<close> on one character: the ASCII capitals and the capitals of
  the Latin-1 block (192 to 222 but for the multiplication sign 215) move up by 32.\<close>

definition lower_char :: "char \<Rightarrow> char" where
  "lower_char c =
     (let n = (of_char c :: nat)
      in if (65 \<le> n \<and> n \<le> 90) \<or> (192 \<le> n \<and> n \<le> 222 \<and> n \<noteq> 215)
         then char_of (n + 32) else c)"

definition lower :: "string \<Rightarrow> string" where
  "lower s = map lower_char s"

definition lstrip :: "string \<Rightarrow> string" where
  "lstrip s = dropWhile is_space s"

definition rstrip :: "string \<Rightarrow> string" where
  "rstrip s = rev (dropWhile is_space (rev s))"

definition strip :: "string \<Rightarrow> string" where
  "strip s = rstrip (lstrip s)"

definition startswith :: "string \<Rightarrow> string \<Rightarrow> bool" where
  "startswith s p = (take (length p) s = p)"

definition endswith :: "string \<Rightarrow> string \<Rightarrow> bool" where
  "endswith s p = (length p \<le> length s \<and> drop (length s - length p) s = p)"

text \<open>\<open>s.split(sep)\<close> for a one-character separator: the pieces between the
  separators, empty pieces kept, so the result is never the empty list.\<close>

fun split_acc :: "char \<Rightarrow> string \<Rightarrow> string \<Rightarrow> string list" where
  "split_acc sep acc [] = [rev acc]"
| "split_acc sep acc (c # cs) =
     (if c = sep then rev acc # split_acc sep [] cs else split_acc sep (c # acc) cs)"

definition split :: "string \<Rightarrow> char \<Rightarrow> string list" where
  "split s sep = split_acc sep [] s"

text \<open>A slice bound as Python clamps it: a negative bound counts from the end,
  and every bound is cut to the range from 0 to the length.\<close>

definition slice_bound :: "nat \<Rightarrow> int \<Rightarrow> nat" where
  "slice_bound n i = (if i < 0 then nat (int n + i) else min n (nat i))"

text \<open>\<open>s[start:stop]\<close> and \<open>s[start:]\<close>.\<close>

definition slice :: "'a list \<Rightarrow> int \<Rightarrow> int \<Rightarrow> 'a list" where
  "slice s start stop =
     (let a = slice_bound (length s) start; b = slice_bound (length s) stop
      in take (b - a) (drop a s))"

definition slice_from :: "'a list \<Rightarrow> int \<Rightarrow> 'a list" where
  "slice_from s start = drop (slice_bound (length s) start) s"

text \<open>\<open>str(n)\<close> for an integer: decimal digits, a minus sign in front of a
  negative number.\<close>

fun str_nat :: "nat \<Rightarrow> string" where
  "str_nat n =
     (if n < 10 then [char_of (48 + n)]
      else str_nat (n div 10) @ [char_of (48 + n mod 10)])"

declare str_nat.simps [simp del]

definition str_int :: "int \<Rightarrow> string" where
  "str_int i = (if i < 0 then CHR ''-'' # str_nat (nat (- i)) else str_nat (nat i))"

text \<open>
  A Python \<open>dict\<close> whose iteration order is observed is an association list in
  insertion order with pairwise distinct keys.  \<open>d[k] = v\<close> replaces the value
  of a key that is present and leaves it in its place, and appends a key that is
  new; \<open>d[k]\<close> raises \<open>KeyError\<close> for a key that is absent; \<open>for k in d\<close> visits
  the keys from the first inserted to the last.
\<close>

type_synonym ('k, 'v) dict = "('k \<times> 'v) list"

fun dict_setitem :: "('k, 'v) dict \<Rightarrow> 'k \<Rightarrow> 'v \<Rightarrow> ('k, 'v) dict" where
  "dict_setitem [] k v = [(k, v)]"
| "dict_setitem ((k', v') # d) k v =
     (if k' = k then (k, v) # d else (k', v') # dict_setitem d k v)"

definition dict_get :: "('k, 'v) dict \<Rightarrow> 'k \<Rightarrow> 'v option" where
  "dict_get d k = map_of d k"

definition dict_keys :: "('k, 'v) dict \<Rightarrow> 'k list" where
  "dict_keys d = map fst d"

section \<open>The pragma token\<close>

text \<open>The class attributes of \<open>PragmaToken\<close>.\<close>

definition pragma_prefix :: string where
  "pragma_prefix = ''<!--''"

definition pragma_alternate_prefix :: string where
  "pragma_alternate_prefix = ''<!---''"

definition pragma_title :: string where
  "pragma_title = ''pyml ''"

definition pragma_suffix :: string where
  "pragma_suffix = ''-->''"

datatype MarkdownTokenClass = CONTAINER_BLOCK | LEAF_BLOCK | INLINE_BLOCK | SPECIAL

text \<open>The fields that \<open>PragmaToken.__init__\<close> sets, its own and those it hands
  to \<open>MarkdownToken.__init__\<close>.\<close>

record PragmaToken =
  token_name :: string
  token_class :: MarkdownTokenClass
  is_extension :: bool
  extra_data :: string
  token_pragma_lines :: "(int, string) dict"

text \<open>The generator expression of \<open>PragmaToken.__init__\<close>, joined with the empty
  string: one piece \<open>;key:text\<close> per key, in the iteration order of the
  dictionary.\<close>

definition serialized_pragmas :: "(int, string) dict \<Rightarrow> string" where
  "serialized_pragmas pl =
     concat (map (\<lambda>next_line_number.
                    '';'' @ str_int next_line_number @ '':'' @
                    (case dict_get pl next_line_number of Some text \<Rightarrow> text | None \<Rightarrow> []))
                 (dict_keys pl))"

text \<open>\<open>PragmaToken.__init__\<close>.  The name of the token kind,
  \<open>MarkdownToken._token_pragma\<close>, is a constant of a module that is not part of
  the sources at hand and is taken as a parameter.\<close>

definition PragmaToken_init :: "string \<Rightarrow> (int, string) dict \<Rightarrow> PragmaToken" where
  "PragmaToken_init token_pragma pl =
     \<lparr> token_name = token_pragma,
       token_class = SPECIAL,
       is_extension = True,
       extra_data = slice_from (serialized_pragmas pl) 1,
       token_pragma_lines = pl \<rparr>"

section \<open>The pragma extension\<close>

text \<open>Modelled from the spec: \<open>ParserHelper.extract_spaces\<close> belongs to a module
  that is not part of the sources at hand.  From its use, it returns the index
  after the run of whitespace that starts at \<open>start_index\<close> together with that
  run, and \<open>None\<close> for both when there is nothing to return, which is the case
  for a start outside the string.  Section 4.1 speaks of whitespace throughout,
  so the run is one of whitespace characters, the blank and the tab among them.\<close>

definition extract_spaces :: "string \<Rightarrow> int \<Rightarrow> (nat \<times> string) option" where
  "extract_spaces source_string start_index =
     (if 0 \<le> start_index \<and> start_index \<le> int (length source_string)
      then let extracted = takeWhile is_space (drop (nat start_index) source_string)
           in Some (nat start_index + length extracted, extracted)
      else None)"

text \<open>Modelled from the spec: \<open>ParserHelper.extract_until_spaces\<close>, of the same
  module.  By section 4.1, step 3, the command is the first whitespace-delimited
  token of the directive's body: the function returns the characters from
  \<open>start_index\<close> up to the next whitespace character, the blank, the tab or any
  other, and the index of that character (the length of the string if there is
  none).\<close>

definition extract_until_spaces :: "string \<Rightarrow> int \<Rightarrow> (nat \<times> string) option" where
  "extract_until_spaces source_string start_index =
     (if 0 \<le> start_index \<and> start_index \<le> int (length source_string)
      then let extracted = takeWhile (\<lambda>c. \<not> is_space c) (drop (nat start_index) source_string)
           in Some (nat start_index + length extracted, extracted)
      else None)"

text \<open>The position marker; the pragma extension reads its line number only.\<close>

record PositionMarker =
  line_number :: int
  index_number :: int

text \<open>\<open>PragmaExtension.look_for_pragmas\<close>.  The last argument is the dictionary
  \<open>parser_properties.pragma_lines\<close>; the result is the returned flag and the
  dictionary after the call.  \<open>extracted_whitespace\<close> is an optional string, and
  \<open>None\<close> and the empty string are the two values Python takes as false.  A
  slice that starts at \<open>None\<close> is the whole string.\<close>

definition look_for_pragmas ::
  "PositionMarker \<Rightarrow> string \<Rightarrow> int \<Rightarrow> string option \<Rightarrow> (int, string) dict
     \<Rightarrow> bool \<times> (int, string) dict" where
  "look_for_pragmas position_marker line_to_parse container_depth extracted_whitespace pl =
     (if container_depth = 0
         \<and> (extracted_whitespace = None \<or> extracted_whitespace = Some [])
         \<and> (startswith line_to_parse pragma_prefix
              \<or> startswith line_to_parse pragma_alternate_prefix)
      then
        let was_extended_prefix = startswith line_to_parse pragma_alternate_prefix;
            start_index =
              extract_spaces line_to_parse
                (int (length (if was_extended_prefix then pragma_alternate_prefix
                              else pragma_prefix)));
            remaining_line =
              lower (rstrip (case start_index of
                               Some (i, _) \<Rightarrow> slice_from line_to_parse (int i)
                             | None \<Rightarrow> line_to_parse))
        in if startswith remaining_line pragma_title \<and> endswith remaining_line pragma_suffix
           then
             let index_number =
                   (if was_extended_prefix then - line_number position_marker
                    else line_number position_marker)
             in (True, dict_setitem pl index_number line_to_parse)
           else (False, pl)
      else (False, pl))"

text \<open>A registered plugin; the pragma extension reads its canonical id only.\<close>

record FoundPlugin =
  plugin_id :: string

text \<open>The exceptions that compiling a pragma can raise.\<close>

datatype py_error = KeyError int | AssertionError

text \<open>The objects that \<open>compile_single_pragma\<close> is handed and may change: the
  dictionary of pragma lines, the suppression table \<open>document_pragmas\<close>, and the
  calls made to \<open>log_pragma_failure\<close> so far, each with its three arguments
  (file, line number, message).\<close>

record pragma_state =
  pragma_lines :: "(int, string) dict"
  document_pragmas :: "int \<rightharpoonup> string set"
  failures :: "(string \<times> int \<times> string) list"

definition log_pragma_failure :: "string \<Rightarrow> int \<Rightarrow> string \<Rightarrow> pragma_state \<Rightarrow> pragma_state" where
  "log_pragma_failure scan_file line message st =
     st\<lparr>failures := failures st @ [(scan_file, line, message)]\<rparr>"

text \<open>The four messages, with the command and the id between single quotes
  (character 39, \<open>CHR 0x27\<close>).\<close>

definition quoted :: "string \<Rightarrow> string" where
  "quoted s = [CHR 0x27] @ s @ [CHR 0x27]"

definition msg_without_command :: string where
  "msg_without_command = ''Inline configuration specified without command.''"

definition msg_not_understood :: "string \<Rightarrow> string" where
  "msg_not_understood command =
     ''Inline configuration command '' @ quoted command @ '' not understood.''"

definition msg_blank_id :: "string \<Rightarrow> string" where
  "msg_blank_id command =
     ''Inline configuration command '' @ quoted command @
     '' specified a plugin with a blank id.''"

definition msg_unknown_id :: "string \<Rightarrow> string \<Rightarrow> string" where
  "msg_unknown_id command next_id =
     ''Inline configuration command '' @ quoted command @
     '' unable to find a plugin with the id '' @ quoted next_id @ ''.''"

text \<open>The loop of \<open>__handle_disable_next_line\<close> over the pieces of the id list;
  the accumulator is the set \<open>processed_ids\<close> together with the state.\<close>

fun disable_next_line_ids ::
  "string \<Rightarrow> int \<Rightarrow> (string \<rightharpoonup> FoundPlugin) \<Rightarrow> string \<Rightarrow> string list
     \<Rightarrow> string set \<times> pragma_state \<Rightarrow> string set \<times> pragma_state" where
  "disable_next_line_ids scan_file actual_line_number all_ids command [] acc = acc"
| "disable_next_line_ids scan_file actual_line_number all_ids command (raw_id # ids)
       (processed_ids, st) =
     (let next_id = lower (strip raw_id)
      in if next_id = [] then
           disable_next_line_ids scan_file actual_line_number all_ids command ids
             (processed_ids,
              log_pragma_failure scan_file actual_line_number (msg_blank_id command) st)
         else
           (case all_ids next_id of
              Some plugin \<Rightarrow>
                disable_next_line_ids scan_file actual_line_number all_ids command ids
                  (insert (plugin_id plugin) processed_ids, st)
            | None \<Rightarrow>
                disable_next_line_ids scan_file actual_line_number all_ids command ids
                  (processed_ids,
                   log_pragma_failure scan_file actual_line_number
                     (msg_unknown_id command next_id) st)))"

text \<open>\<open>PragmaExtension.__handle_disable_next_line\<close>.\<close>

definition handle_disable_next_line ::
  "string \<Rightarrow> nat \<Rightarrow> string \<Rightarrow> int \<Rightarrow> (string \<rightharpoonup> FoundPlugin) \<Rightarrow> string
     \<Rightarrow> pragma_state \<Rightarrow> pragma_state" where
  "handle_disable_next_line command_data after_command_index scan_file actual_line_number
       all_ids command st =
     (let ids_to_disable = split (slice_from command_data (int after_command_index)) (CHR '','');
          (processed_ids, st') =
            disable_next_line_ids scan_file actual_line_number all_ids command
              ids_to_disable ({}, st)
      in if processed_ids \<noteq> {}
         then st'\<lparr>document_pragmas :=
                    (document_pragmas st')(actual_line_number + 1 \<mapsto> processed_ids)\<rparr>
         else st')"

text \<open>The first half of \<open>compile_single_pragma\<close>, up to the lower-cased command:
  from the signed key and the stored line it computes the line number of the
  directive, the directive's body \<open>command_data\<close>, the index in the body after
  the command, and the command.  The two assertions of the source are the
  \<open>AssertionError\<close> branches.\<close>

definition directive_parts ::
  "int \<Rightarrow> string \<Rightarrow> py_error + (int \<times> string \<times> nat \<times> string)" where
  "directive_parts next_line_number line =
     (let (prefix_length, actual_line_number) =
            (if next_line_number > 0 then (length pragma_prefix, next_line_number)
             else (length pragma_alternate_prefix, - next_line_number));
          line_after_prefix = rstrip (slice_from line (int prefix_length))
      in case extract_spaces line_after_prefix 0 of
           None \<Rightarrow> Inl AssertionError
         | Some (after_whitespace_index, _) \<Rightarrow>
             let command_data =
                   slice line_after_prefix
                     (int (after_whitespace_index + length pragma_title))
                     (- int (length pragma_suffix))
             in (case extract_until_spaces command_data 0 of
                   None \<Rightarrow> Inl AssertionError
                 | Some (after_command_index, command) \<Rightarrow>
                     Inr (actual_line_number, command_data, after_command_index,
                          lower command)))"

text \<open>\<open>PragmaExtension.compile_single_pragma\<close>: the lookup of the key, which
  raises \<open>KeyError\<close> for a key that is absent, the first half above, and the
  three branches on the command.\<close>

definition compile_single_pragma ::
  "string \<Rightarrow> int \<Rightarrow> (string \<rightharpoonup> FoundPlugin) \<Rightarrow> pragma_state \<Rightarrow> py_error + pragma_state" where
  "compile_single_pragma scan_file next_line_number all_ids st =
     (case dict_get (pragma_lines st) next_line_number of
        None \<Rightarrow> Inl (KeyError next_line_number)
      | Some line \<Rightarrow>
          (case directive_parts next_line_number line of
             Inl e \<Rightarrow> Inl e
           | Inr (actual_line_number, command_data, after_command_index, command) \<Rightarrow>
               if command = [] then
                 Inr (log_pragma_failure scan_file actual_line_number msg_without_command st)
               else if command = ''disable-next-line'' then
                 Inr (handle_disable_next_line command_data after_command_index scan_file
                        actual_line_number all_ids command st)
               else
                 Inr (log_pragma_failure scan_file actual_line_number
                        (msg_not_understood command) st)))"

section \<open>The scan orchestrator\<close>

text \<open>The two exceptions that \<open>main\<close> catches around the scan of a file, each
  with its message.\<close>

datatype scan_error = BadPluginError string | BadTokenizationError string

text \<open>\<open>type(this_exception).__name__\<close> and \<open>str(this_exception)\<close>.\<close>

fun type_name :: "scan_error \<Rightarrow> string" where
  "type_name (BadPluginError _) = ''BadPluginError''"
| "type_name (BadTokenizationError _) = ''BadTokenizationError''"

fun error_text :: "scan_error \<Rightarrow> string" where
  "error_text (BadPluginError message) = message"
| "error_text (BadTokenizationError message) = message"

text \<open>The calls that the orchestrator makes to its collaborators, in the order
  in which it makes them, with the arguments that matter here.\<close>

datatype 'tok event =
    StartingNewFile string
  | NextLine int string
  | TransformFromProvider "string list option"
  | NextToken 'tok
  | CompletedFile int

text \<open>
  The plugin manager, the tokenizer and the file source provider are classes of
  modules that are not part of the sources at hand; they are parameters of the
  model.  \<open>get_lines\<close> gives the lines that a \<open>FileSourceProvider\<close> opened on
  a file returns from \<open>get_next_line\<close> before it returns \<open>None\<close>.  The hooks
  of the plugin manager act on its state \<open>'p\<close>, and every hook and the tokenizer
  may raise one of the two exceptions above.
\<close>

record ('p, 'c, 'tok) collaborators =
  get_lines :: "string \<Rightarrow> string list"
  starting_new_file :: "string \<Rightarrow> 'p \<Rightarrow> scan_error + 'c \<times> 'p"
  next_line :: "'c \<Rightarrow> int \<Rightarrow> string \<Rightarrow> 'p \<Rightarrow> scan_error + 'p"
  transform_from_provider :: "string list option \<Rightarrow> scan_error + 'tok list"
  next_token :: "'c \<Rightarrow> 'tok \<Rightarrow> 'p \<Rightarrow> scan_error + 'p"
  completed_file :: "'c \<Rightarrow> int \<Rightarrow> 'p \<Rightarrow> scan_error + 'p"
  number_of_scan_failures :: "'p \<Rightarrow> int"

text \<open>The parsed arguments that the scan reads.\<close>

record arguments =
  x_test_scan_fault :: bool
  show_stack_trace :: bool

text \<open>The \<open>while\<close> loop of \<open>__scan_file\<close>: the state is the plugin manager's
  state and the calls made so far; the result is the calls made and either the
  exception raised or the line counter after the loop with the new state.\<close>

fun scan_lines ::
  "('p, 'c, 'tok) collaborators \<Rightarrow> 'c \<Rightarrow> int \<Rightarrow> string list \<Rightarrow> 'p \<times> 'tok event list
     \<Rightarrow> 'tok event list \<times> (scan_error + int \<times> 'p)" where
  "scan_lines pm context line_no [] (p, tr) = (tr, Inr (line_no, p))"
| "scan_lines pm context line_no (line # rest) (p, tr) =
     (case next_line pm context line_no line p of
        Inl e \<Rightarrow> (tr @ [NextLine line_no line], Inl e)
      | Inr p' \<Rightarrow>
          scan_lines pm context (line_no + 1) rest (p', tr @ [NextLine line_no line]))"

text \<open>The \<open>for\<close> loop of \<open>__scan_file\<close> over the tokens.\<close>

fun scan_tokens ::
  "('p, 'c, 'tok) collaborators \<Rightarrow> 'c \<Rightarrow> 'tok list \<Rightarrow> 'p \<times> 'tok event list
     \<Rightarrow> 'tok event list \<times> (scan_error + 'p)" where
  "scan_tokens pm context [] (p, tr) = (tr, Inr p)"
| "scan_tokens pm context (tok # rest) (p, tr) =
     (case next_token pm context tok p of
        Inl e \<Rightarrow> (tr @ [NextToken tok], Inl e)
      | Inr p' \<Rightarrow> scan_tokens pm context rest (p', tr @ [NextToken tok]))"

text \<open>\<open>PyMarkdownLint.__scan_file\<close>.\<close>

fun scan_file ::
  "('p, 'c, 'tok) collaborators \<Rightarrow> arguments \<Rightarrow> string \<Rightarrow> 'p \<times> 'tok event list
     \<Rightarrow> 'tok event list \<times> (scan_error + 'p)" where
  "scan_file pm args next_file (p, tr) =
     (case starting_new_file pm next_file p of
        Inl e \<Rightarrow> (tr @ [StartingNewFile next_file], Inl e)
      | Inr (context, p1) \<Rightarrow>
          (case scan_lines pm context 1 (get_lines pm next_file)
                  (p1, tr @ [StartingNewFile next_file]) of
             (tr2, Inl e) \<Rightarrow> (tr2, Inl e)
           | (tr2, Inr (line_no, p2)) \<Rightarrow>
               let source_provider =
                     (if x_test_scan_fault args then None
                      else Some (get_lines pm next_file))
               in (case transform_from_provider pm source_provider of
                     Inl e \<Rightarrow> (tr2 @ [TransformFromProvider source_provider], Inl e)
                   | Inr actual_tokens \<Rightarrow>
                       (case scan_tokens pm context actual_tokens
                               (p2, tr2 @ [TransformFromProvider source_provider]) of
                          (tr3, Inl e) \<Rightarrow> (tr3, Inl e)
                        | (tr3, Inr p3) \<Rightarrow>
                            (case completed_file pm context line_no p3 of
                               Inl e \<Rightarrow> (tr3 @ [CompletedFile line_no], Inl e)
                             | Inr p4 \<Rightarrow> (tr3 @ [CompletedFile line_no], Inr p4))))))"

text \<open>What a run reports, in the order in which it does: a call of
  \<open>self.logger.warning(text, exc_info=True)\<close>, which hands the text and the
  traceback of the exception to the logging module (with no handler installed,
  as in \<open>main\<close>, the handler of last resort writes both to the standard error
  stream); a \<open>print\<close> of a text to the standard error stream; and a call of
  \<open>traceback.print_exc\<close> on the standard error stream.  A run ends early by
  \<open>sys.exit(n)\<close>, which raises \<open>SystemExit\<close>, and nothing in \<open>main\<close> catches it.\<close>

datatype output_item = LoggerWarning string | ErrorText string | StackTrace

datatype sys_exit = SystemExit int

text \<open>\<open>PyMarkdownLint.__handle_error\<close>: the error is logged as a warning and
  printed, the stack trace is printed if that was asked for, and the process
  exits with status 1.\<close>

definition handle_error :: "arguments \<Rightarrow> string \<Rightarrow> output_item list \<times> sys_exit" where
  "handle_error args formatted_error =
     (LoggerWarning formatted_error # ErrorText formatted_error
        # (if show_stack_trace args then [StackTrace] else []),
      SystemExit 1)"

text \<open>\<open>PyMarkdownLint.__handle_scan_error\<close>; \<open>CHR 0x0A\<close> is the line feed.\<close>

definition handle_scan_error ::
  "arguments \<Rightarrow> string \<Rightarrow> scan_error \<Rightarrow> output_item list \<times> sys_exit" where
  "handle_scan_error args next_file this_exception =
     handle_error args
       (type_name this_exception @ '' encountered while scanning '' @ quoted next_file @
        '':'' @ [CHR 0x0A] @ error_text this_exception)"

text \<open>The loop of \<open>main\<close> over the files to scan: the calls made, what was
  reported, and either the exit that ended the loop
  or the state of the plugin manager after the last file.\<close>

fun scan_files ::
  "('p, 'c, 'tok) collaborators \<Rightarrow> arguments \<Rightarrow> string list \<Rightarrow> 'p \<times> 'tok event list
     \<Rightarrow> 'tok event list \<times> output_item list \<times> (sys_exit + 'p)" where
  "scan_files pm args [] (p, tr) = (tr, [], Inr p)"
| "scan_files pm args (next_file # files) (p, tr) =
     (case scan_file pm args next_file (p, tr) of
        (tr', Inl this_exception) \<Rightarrow>
          (case handle_scan_error args next_file this_exception of
             (out, exit) \<Rightarrow> (tr', out, Inl exit))
      | (tr', Inr p') \<Rightarrow> scan_files pm args files (p', tr'))"

text \<open>The end of \<open>main\<close>, from the loop over the files on: after the loop the
  process exits with status 1 if the plugin manager counts scan failures, and
  \<open>main\<close> returns otherwise (\<open>None\<close>).\<close>

definition main_scan ::
  "('p, 'c, 'tok) collaborators \<Rightarrow> arguments \<Rightarrow> string list \<Rightarrow> 'p \<times> 'tok event list
     \<Rightarrow> 'tok event list \<times> output_item list \<times> sys_exit option" where
  "main_scan pm args files_to_scan st =
     (case scan_files pm args files_to_scan st of
        (tr, out, Inl exit) \<Rightarrow> (tr, out, Some exit)
      | (tr, out, Inr p) \<Rightarrow>
          (tr, out, if number_of_scan_failures pm p \<noteq> 0 then Some (SystemExit 1) else None))"

section \<open>Sample data\<close>

text \<open>A registry with two plugins, \<open>md009\<close> with the alias
  \<open>no-trailing-spaces\<close> and \<open>md036\<close> with the alias \<open>no-emphasis-as-heading\<close>,
  and the state in which a single pragma line has been recognized and nothing
  has been compiled yet.\<close>

definition demo_plugins :: "string \<rightharpoonup> FoundPlugin" where
  "demo_plugins =
     [''md009'' \<mapsto> \<lparr>plugin_id = ''md009''\<rparr>,
      ''no-trailing-spaces'' \<mapsto> \<lparr>plugin_id = ''md009''\<rparr>,
      ''md036'' \<mapsto> \<lparr>plugin_id = ''md036''\<rparr>,
      ''no-emphasis-as-heading'' \<mapsto> \<lparr>plugin_id = ''md036''\<rparr>]"

definition demo_state :: "int \<Rightarrow> string \<Rightarrow> pragma_state" where
  "demo_state key line =
     \<lparr>pragma_lines = [(key, line)], document_pragmas = Map.empty, failures = []\<rparr>"

text \<open>Collaborators for a run over two files: \<open>a.md\<close> has the one line \<open>x\<close>,
  on which the tokenizer raises; every other file has the two lines \<open>y\<close> and
  \<open>z\<close> and gives the one token \<open>t\<close>.  The plugin manager has no state and its
  hooks never raise.\<close>

definition demo_collaborators :: "(unit, unit, string) collaborators" where
  "demo_collaborators =
     \<lparr> get_lines = (\<lambda>f. if f = ''a.md'' then [''x''] else [''y'', ''z'']),
       starting_new_file = (\<lambda>f p. Inr ((), p)),
       next_line = (\<lambda>c n l p. Inr p),
       transform_from_provider =
         (\<lambda>src. if src = Some [''x''] then Inl (BadTokenizationError ''boom'')
                 else Inr [''t'']),
       next_token = (\<lambda>c t p. Inr p),
       completed_file = (\<lambda>c n p. Inr p),
       number_of_scan_failures = (\<lambda>p. 0) \<rparr>"

definition demo_arguments :: arguments where
  "demo_arguments = \<lparr> x_test_scan_fault = False, show_stack_trace = False \<rparr>"

section \<open>Auxiliary facts\<close>

lemma dict_get_setitem:
  "dict_get (dict_setitem d k v) k' = (if k' = k then Some v else dict_get d k')"
  by (induction d) (auto simp: dict_get_def)

lemma dict_keys_setitem:
  "dict_keys (dict_setitem d k v) =
     (if k \<in> set (dict_keys d) then dict_keys d else dict_keys d @ [k])"
  by (induction d) (force simp: dict_keys_def)+

lemma disable_next_line_ids_result:
  "disable_next_line_ids f n all_ids cmd ids (P, st) =
     (P \<union> set (map plugin_id
               (List.map_filter (\<lambda>t. if t = [] then None else all_ids t)
                  (map (\<lambda>r. lower (strip r)) ids))),
      st\<lparr>failures := failures st @
           map (\<lambda>t. (f, n, if t = [] then msg_blank_id cmd else msg_unknown_id cmd t))
             (filter (\<lambda>t. t = [] \<or> all_ids t = None) (map (\<lambda>r. lower (strip r)) ids))\<rparr>)"
proof (induction ids arbitrary: P st)
  case Nil
  show ?case by (simp add: map_filter_simps)
next
  case (Cons r ids)
  show ?case
    by (cases "all_ids (lower (strip r))")
       (simp_all add: Let_def Cons.IH log_pragma_failure_def map_filter_simps)
qed

lemma extract_spaces_0: "\<exists>i w. extract_spaces s 0 = Some (i, w)"
  by (simp add: extract_spaces_def Let_def)

lemma extract_until_spaces_0: "\<exists>i w. extract_until_spaces s 0 = Some (i, w)"
  by (simp add: extract_until_spaces_def Let_def)

lemma directive_parts_total:
  "\<exists>cd idx command.
     directive_parts key line = Inr (if key > 0 then key else - key, cd, idx, command)"
  by (simp add: directive_parts_def extract_spaces_def extract_until_spaces_def Let_def)

lemma fold_setitem_keys:
  "dict_keys (fold (\<lambda>(k, v) d. dict_setitem d k v) kvs []) = rev (remdups (rev (map fst kvs)))"
proof (induction kvs rule: rev_induct)
  case Nil
  show ?case by (simp add: dict_keys_def)
next
  case (snoc kv kvs)
  have "set (dict_keys (fold (\<lambda>(k, v) d. dict_setitem d k v) kvs [])) = fst ` set kvs"
    by (simp add: snoc.IH)
  then show ?case
    by (cases kv) (simp add: dict_keys_setitem snoc.IH)
qed

lemma fold_setitem_get:
  "dict_get (fold (\<lambda>(k, v) d. dict_setitem d k v) kvs []) k = map_of (rev kvs) k"
proof (induction kvs rule: rev_induct)
  case Nil
  show ?case by (simp add: dict_get_def)
next
  case (snoc kv kvs)
  then show ?case
    by (cases kv) (simp add: dict_get_setitem)
qed

lemma split_acc_not_Nil: "split_acc sep acc s \<noteq> []"
  by (induction s arbitrary: acc) auto

lemma split_not_Nil: "split s sep \<noteq> []"
  by (simp add: split_def split_acc_not_Nil)

lemma map_filter_Nil_iff: "List.map_filter g xs = [] \<longleftrightarrow> (\<forall>x \<in> set xs. g x = None)"
  by (induction xs) (auto simp: map_filter_simps split: option.splits)

lemma handle_disable_next_line_result:
  "handle_disable_next_line cd idx f n all_ids cmd st =
     (let toks = map (\<lambda>r. lower (strip r)) (split (slice_from cd (int idx)) (CHR '',''));
          ids = set (map plugin_id
                  (List.map_filter (\<lambda>t. if t = [] then None else all_ids t) toks));
          st1 = st\<lparr>failures := failures st @
                  map (\<lambda>t. (f, n, if t = [] then msg_blank_id cmd else msg_unknown_id cmd t))
                    (filter (\<lambda>t. t = [] \<or> all_ids t = None) toks)\<rparr>
      in if ids = {} then st1
         else st1\<lparr>document_pragmas := (document_pragmas st)(n + 1 \<mapsto> ids)\<rparr>)"
  by (simp add: handle_disable_next_line_def disable_next_line_ids_result Let_def)

lemma directive_parts_line:
  "directive_parts key line = Inr (n, cd, idx, command) \<Longrightarrow> n = \<bar>key\<bar>"
  using directive_parts_total [of key line] by (auto split: if_splits)

lemma startswith_append:
  assumes "startswith s (p @ q)"
  shows "startswith s p"
proof -
  have "take (length p) s = take (length p) (take (length (p @ q)) s)"
    by (simp add: min_def)
  also have "\<dots> = take (length p) (p @ q)"
    using assms by (simp add: startswith_def)
  finally show ?thesis by (simp add: startswith_def)
qed

lemma slice_from_1: "slice_from s 1 = drop 1 s"
  by (cases s) (simp_all add: slice_from_def slice_bound_def)

lemma scan_lines_trace:
  "scan_lines pm context i ls (p, tr) = (tr', Inr (j, p')) \<Longrightarrow>
     j = i + int (length ls)
     \<and> tr' = tr @ map (\<lambda>(n, l). NextLine n l) (zip [i..i + int (length ls) - 1] ls)"
proof (induction ls arbitrary: i p tr)
  case Nil
  then show ?case by simp
next
  case (Cons l ls)
  from Cons.prems obtain p1
    where step: "next_line pm context i l p = Inr p1"
      and rest: "scan_lines pm context (i + 1) ls (p1, tr @ [NextLine i l]) = (tr', Inr (j, p'))"
    by (auto split: sum.splits)
  from Cons.IH [OF rest]
  have j: "j = i + 1 + int (length ls)"
    and tr': "tr' = (tr @ [NextLine i l]) @
        map (\<lambda>(n, l). NextLine n l) (zip [i + 1..i + 1 + int (length ls) - 1] ls)"
    by simp_all
  have "[i..i + int (length (l # ls)) - 1] = i # [i + 1..i + 1 + int (length ls) - 1]"
    by (simp add: upto_rec1 [of i] add.commute add.left_commute)
  with j tr' show ?case by simp
qed

lemma scan_tokens_trace:
  "scan_tokens pm context toks (p, tr) = (tr', Inr p') \<Longrightarrow> tr' = tr @ map NextToken toks"
proof (induction toks arbitrary: p tr)
  case Nil
  then show ?case by simp
next
  case (Cons t toks)
  from Cons.prems obtain p1
    where "scan_tokens pm context toks (p1, tr @ [NextToken t]) = (tr', Inr p')"
    by (auto split: sum.splits)
  from Cons.IH [OF this] show ?case by simp
qed

lemma scan_files_append:
  "scan_files pm args before (p, tr) = (tr1, out, Inr p1) \<Longrightarrow>
     scan_files pm args (before @ files) (p, tr) = scan_files pm args files (p1, tr1)"
proof (induction before arbitrary: p tr)
  case Nil
  then show ?case by simp
next
  case (Cons f before)
  from Cons.prems obtain p0 tr0
    where first: "scan_file pm args f (p, tr) = (tr0, Inr p0)"
      and rest: "scan_files pm args before (p0, tr0) = (tr1, out, Inr p1)"
    by (auto split: sum.splits prod.splits)
  from Cons.IH [OF rest] first show ?case by simp
qed

lemma split_acc_piece:
  "sep \<notin> set p \<Longrightarrow> split_acc sep acc (p @ rest) = split_acc sep (rev p @ acc) rest"
  by (induction p arbitrary: acc) auto

lemma split_join:
  assumes "pieces \<noteq> []" and "\<forall>p \<in> set pieces. sep \<notin> set p"
  shows "split (concat (map (\<lambda>p. p @ [sep]) (butlast pieces)) @ last pieces) sep = pieces"
  using assms
proof (induction pieces)
  case Nil
  then show ?case by simp
next
  case (Cons p pieces)
  show ?case
  proof (cases "pieces = []")
    case True
    with Cons.prems split_acc_piece [of sep p "[]" "[]"] show ?thesis
      by (simp add: split_def)
  next
    case False
    with Cons have IH: "split (concat (map (\<lambda>p. p @ [sep]) (butlast pieces)) @ last pieces) sep
        = pieces"
      by simp
    from Cons.prems have "sep \<notin> set p" by simp
    from split_acc_piece [OF this, of "[]"] False IH show ?thesis
      by (simp add: split_def)
  qed
qed

lemma msg_blank_id_text:
  "msg_blank_id ''disable-next-line'' =
     ''Inline configuration command 'disable-next-line' specified a plugin with a blank id.''"
  by (simp add: msg_blank_id_def quoted_def)

lemma msg_unknown_id_text:
  "msg_unknown_id ''disable-next-line'' t =
     ''Inline configuration command 'disable-next-line' unable to find a plugin with the id ''
     @ [CHR 0x27] @ t @ [CHR 0x27] @ ''.''"
  by (simp add: msg_unknown_id_def quoted_def)

lemma msg_without_command_text:
  "msg_without_command = ''Inline configuration specified without command.''"
  by (simp add: msg_without_command_def)

lemma msg_not_understood_text:
  "msg_not_understood command =
     ''Inline configuration command '' @ [CHR 0x27] @ command @ [CHR 0x27]
     @ '' not understood.''"
  by (simp add: msg_not_understood_def quoted_def)

section \<open>Recognition of pragma lines\<close>

text \<open>
  Claim C7.  A line presented to \<open>look_for_pragmas\<close> at a container depth
  greater than zero, or with a non-empty extracted leading whitespace, is not
  recognized whatever its text is: the function returns \<open>False\<close> and the pragma
  map is the one it was given.
\<close>

theorem look_for_pragmas_nested_or_indented:
  "container_depth > 0 \<or> (\<exists>w. extracted_whitespace = Some w \<and> w \<noteq> []) \<Longrightarrow>
     look_for_pragmas position_marker line_to_parse container_depth extracted_whitespace pl
       = (False, pl)"
  by (auto simp: look_for_pragmas_def)

theorem look_for_pragmas_nested_or_indented_witness:
  "look_for_pragmas \<lparr>line_number = 1, index_number = 0\<rparr>
       ''<!-- pyml disable-next-line md009 -->'' 1 None [] = (False, [])
   \<and> look_for_pragmas \<lparr>line_number = 1, index_number = 0\<rparr>
       ''<!-- pyml disable-next-line md009 -->'' 0 (Some '' '') [] = (False, [])"
  using look_for_pragmas_nested_or_indented
          [of 1 None "\<lparr>line_number = 1, index_number = 0\<rparr>"
              "''<!-- pyml disable-next-line md009 -->''" "[]"]
        look_for_pragmas_nested_or_indented
          [of 0 "Some '' ''" "\<lparr>line_number = 1, index_number = 0\<rparr>"
              "''<!-- pyml disable-next-line md009 -->''" "[]"]
  by simp

text \<open>
  Claim C8.  When \<open>look_for_pragmas\<close> recognizes a line, it stores exactly one
  entry: the raw line under the key \<open>- line_number\<close> if the line begins with the
  alternate prefix, and under \<open>+ line_number\<close> otherwise, in which case it begins
  with the standard prefix only.  Every other key of the pragma map, the key of
  the opposite sign among them, keeps what it had, although a line with the
  alternate prefix begins with the standard prefix as well.
\<close>

theorem look_for_pragmas_stores_one_key:
  fixes position_marker :: PositionMarker and line_to_parse :: string
  defines "key \<equiv> (if startswith line_to_parse pragma_alternate_prefix
                   then - line_number position_marker else line_number position_marker)"
  assumes "look_for_pragmas position_marker line_to_parse container_depth
             extracted_whitespace pl = (True, pl')"
  shows "startswith line_to_parse pragma_prefix
         \<and> pl' = dict_setitem pl key line_to_parse
         \<and> dict_get pl' key = Some line_to_parse
         \<and> (\<forall>k. k \<noteq> key \<longrightarrow> dict_get pl' k = dict_get pl k)"
proof -
  have stored: "pl' = dict_setitem pl key line_to_parse"
    using assms(2) unfolding look_for_pragmas_def Let_def key_def
    by (simp split: if_splits)
  have "startswith line_to_parse pragma_prefix
        \<or> startswith line_to_parse pragma_alternate_prefix"
    using assms(2) unfolding look_for_pragmas_def by (simp split: if_splits)
  moreover have "startswith line_to_parse pragma_prefix"
    if "startswith line_to_parse pragma_alternate_prefix"
    using that startswith_append [of line_to_parse pragma_prefix "''-''"]
    by (simp add: pragma_prefix_def pragma_alternate_prefix_def)
  ultimately have "startswith line_to_parse pragma_prefix" by blast
  then show ?thesis using stored by (simp add: dict_get_setitem)
qed

theorem look_for_pragmas_stores_one_key_witness:
  "look_for_pragmas \<lparr>line_number = 3, index_number = 0\<rparr>
       ''<!--- pyml disable-next-line md009 -->'' 0 None [(3, ''<!-- pyml x -->'')]
     = (True, [(3, ''<!-- pyml x -->''), (- 3, ''<!--- pyml disable-next-line md009 -->'')])
   \<and> startswith ''<!--- pyml disable-next-line md009 -->'' pragma_prefix
   \<and> dict_get [(3 :: int, ''<!-- pyml x -->''),
                 (- 3, ''<!--- pyml disable-next-line md009 -->'')] 3
       = Some ''<!-- pyml x -->''"
proof -
  have run: "look_for_pragmas \<lparr>line_number = 3, index_number = 0\<rparr>
       ''<!--- pyml disable-next-line md009 -->'' 0 None [(3, ''<!-- pyml x -->'')]
     = (True, [(3, ''<!-- pyml x -->''), (- 3, ''<!--- pyml disable-next-line md009 -->'')])"
    by code_simp
  have alt: "startswith ''<!--- pyml disable-next-line md009 -->'' pragma_alternate_prefix"
    by code_simp
  have old: "dict_get [(3 :: int, ''<!-- pyml x -->'')] 3 = Some ''<!-- pyml x -->''"
    by (simp add: dict_get_def)
  note stored = look_for_pragmas_stores_one_key [OF run]
  from stored alt
  have "dict_get [(3 :: int, ''<!-- pyml x -->''),
                  (- 3, ''<!--- pyml disable-next-line md009 -->'')] 3
          = dict_get [(3 :: int, ''<!-- pyml x -->'')] 3"
    by simp
  with stored run old show ?thesis by simp
qed

section \<open>Compilation of pragma lines\<close>

text \<open>
  Claim C2.  Take a directive stored under the key \<open>key\<close>, so that its source
  line is \<open>N = \<bar>key\<bar>\<close>, whose command is \<open>disable-next-line\<close> and whose id
  list, the text after the command, consists of the pieces \<open>pieces\<close> separated by
  commas, at least one of which resolves to a plugin once it is trimmed and
  lower-cased.  Compiling it succeeds and changes the suppression table at the
  one key \<open>N + 1\<close> (not at \<open>N\<close>, not at \<open>N + 2\<close>, at no other key), where it
  stores the set of the canonical ids \<open>plugin_id\<close> of the plugins that the pieces
  resolve to; an alias is replaced by the canonical id of its plugin.
\<close>

theorem disable_next_line_stores_next_line:
  fixes all_ids :: "string \<rightharpoonup> FoundPlugin"
  assumes "dict_get (pragma_lines st) key = Some line"
      and "directive_parts key line = Inr (n, command_data, idx, ''disable-next-line'')"
      and "slice_from command_data (int idx)
             = concat (map (\<lambda>p. p @ '','') (butlast pieces)) @ last pieces"
      and "pieces \<noteq> []"
      and "\<forall>p \<in> set pieces. CHR '','' \<notin> set p"
      and "ids = set (map plugin_id
                   (List.map_filter (\<lambda>t. if t = [] then None else all_ids t)
                      (map (\<lambda>r. lower (strip r)) pieces)))"
      and "ids \<noteq> {}"
  shows "n = \<bar>key\<bar>
         \<and> (\<exists>st'. compile_single_pragma file key all_ids st = Inr st'
                  \<and> document_pragmas st' = (document_pragmas st)(n + 1 \<mapsto> ids))"
proof -
  have "n = \<bar>key\<bar>"
    using assms(2) by (rule directive_parts_line)
  moreover have "compile_single_pragma file key all_ids st =
      Inr (handle_disable_next_line command_data idx file n all_ids
             ''disable-next-line'' st)"
    using assms(1,2) by (simp add: compile_single_pragma_def)
  moreover have "split (slice_from command_data (int idx)) (CHR '','') = pieces"
    unfolding assms(3) using assms(4,5) by (rule split_join)
  then have "document_pragmas
      (handle_disable_next_line command_data idx file n all_ids
         ''disable-next-line'' st) = (document_pragmas st)(n + 1 \<mapsto> ids)"
    using assms(6,7) by (simp add: handle_disable_next_line_result Let_def)
  ultimately show ?thesis by simp
qed

theorem disable_next_line_stores_next_line_witness:
  "(\<exists>st'. compile_single_pragma ''a.md'' 1 demo_plugins
            (demo_state 1 ''<!-- pyml disable-next-line no-trailing-spaces, MD036 -->'')
            = Inr st'
          \<and> document_pragmas st' = [2 \<mapsto> {''md009'', ''md036''}])
   \<and> (\<exists>st'. compile_single_pragma ''a.md'' (- 7) demo_plugins
            (demo_state (- 7)
               (''<!--- pyml Disable-Next-Line'' @ [CHR 0x09] @ ''no-emphasis-as-heading -->''))
            = Inr st'
          \<and> document_pragmas st' = [8 \<mapsto> {''md036''}])"
proof
  let ?line = "''<!-- pyml disable-next-line no-trailing-spaces, MD036 -->''"
  have present: "dict_get (pragma_lines (demo_state 1 ?line)) 1 = Some ?line"
    by (simp add: demo_state_def dict_get_def)
  have parts: "directive_parts 1 ?line
      = Inr (1, ''disable-next-line no-trailing-spaces, MD036 '', 17, ''disable-next-line'')"
    by code_simp
  have joined: "slice_from ''disable-next-line no-trailing-spaces, MD036 '' (int 17)
      = concat (map (\<lambda>p. p @ '','') (butlast ['' no-trailing-spaces'', '' MD036 '']))
        @ last ['' no-trailing-spaces'', '' MD036 '']"
    by code_simp
  have pieces: "['' no-trailing-spaces'', '' MD036 ''] \<noteq> []"
    "\<forall>p \<in> set ['' no-trailing-spaces'', '' MD036 '']. CHR '','' \<notin> set p"
    by simp_all
  have toks: "map (\<lambda>r. lower (strip r)) ['' no-trailing-spaces'', '' MD036 '']
      = [''no-trailing-spaces'', ''md036'']"
    by code_simp
  have ids: "{''md009'', ''md036''} = set (map plugin_id
      (List.map_filter (\<lambda>t. if t = [] then None else demo_plugins t)
         (map (\<lambda>r. lower (strip r)) ['' no-trailing-spaces'', '' MD036 ''])))"
    unfolding toks by (simp add: map_filter_simps demo_plugins_def)
  have nonempty: "{''md009'', ''md036''} \<noteq> ({} :: string set)" by simp
  from disable_next_line_stores_next_line
         [OF present parts joined pieces ids nonempty, of "''a.md''"]
  show "\<exists>st'. compile_single_pragma ''a.md'' 1 demo_plugins (demo_state 1 ?line) = Inr st'
          \<and> document_pragmas st' = [2 \<mapsto> {''md009'', ''md036''}]"
    by (simp add: demo_state_def)
next
  let ?line = "''<!--- pyml Disable-Next-Line'' @ [CHR 0x09] @ ''no-emphasis-as-heading -->''"
  have present: "dict_get (pragma_lines (demo_state (- 7) ?line)) (- 7) = Some ?line"
    by (simp add: demo_state_def dict_get_def)
  have parts: "directive_parts (- 7) ?line
      = Inr (7, ''Disable-Next-Line'' @ [CHR 0x09] @ ''no-emphasis-as-heading '', 17,
             ''disable-next-line'')"
    by code_simp
  have joined: "slice_from (''Disable-Next-Line'' @ [CHR 0x09] @ ''no-emphasis-as-heading '')
        (int 17)
      = concat (map (\<lambda>p. p @ '','') (butlast [[CHR 0x09] @ ''no-emphasis-as-heading '']))
        @ last [[CHR 0x09] @ ''no-emphasis-as-heading '']"
    by code_simp
  have pieces: "[[CHR 0x09] @ ''no-emphasis-as-heading ''] \<noteq> []"
    "\<forall>p \<in> set [[CHR 0x09] @ ''no-emphasis-as-heading '']. CHR '','' \<notin> set p"
    by simp_all
  have toks: "map (\<lambda>r. lower (strip r)) [[CHR 0x09] @ ''no-emphasis-as-heading '']
      = [''no-emphasis-as-heading'']"
    by code_simp
  have ids: "{''md036''} = set (map plugin_id
      (List.map_filter (\<lambda>t. if t = [] then None else demo_plugins t)
         (map (\<lambda>r. lower (strip r)) [[CHR 0x09] @ ''no-emphasis-as-heading ''])))"
    unfolding toks by (simp add: map_filter_simps demo_plugins_def)
  have nonempty: "{''md036''} \<noteq> ({} :: string set)" by simp
  from disable_next_line_stores_next_line
         [OF present parts joined pieces ids nonempty, of "''a.md''"]
  show "\<exists>st'. compile_single_pragma ''a.md'' (- 7) demo_plugins (demo_state (- 7) ?line) = Inr st'
          \<and> document_pragmas st' = [8 \<mapsto> {''md036''}]"
    by (simp add: demo_state_def)
qed

text \<open>
  Claim C5.  For a \<open>disable-next-line\<close> directive whose id list consists of the
  pieces \<open>pieces\<close> separated by commas, the error callback is called exactly once
  for every piece that does not resolve, in the order of the list: for a piece
  that is not a key of the registry's table, with the message that no plugin
  with the id was found, which quotes the trimmed and lower-cased piece; for a
  blank piece, with the message that a plugin with a blank id was specified.
  The pieces that resolve are all applied whatever the others are, and when none
  resolves the suppression table is left as it was: no entry is created.
\<close>

theorem disable_next_line_unknown_ids:
  fixes all_ids :: "string \<rightharpoonup> FoundPlugin" and pieces :: "string list"
  defines "toks \<equiv> map (\<lambda>r. lower (strip r)) pieces"
  defines "ids \<equiv> set (map plugin_id
                     (List.map_filter (\<lambda>t. if t = [] then None else all_ids t) toks))"
  assumes "dict_get (pragma_lines st) key = Some line"
      and "directive_parts key line = Inr (n, command_data, idx, ''disable-next-line'')"
      and "slice_from command_data (int idx)
             = concat (map (\<lambda>p. p @ '','') (butlast pieces)) @ last pieces"
      and "pieces \<noteq> []"
      and "\<forall>p \<in> set pieces. CHR '','' \<notin> set p"
  shows "\<exists>st'. compile_single_pragma file key all_ids st = Inr st'
           \<and> failures st' = failures st @
                map (\<lambda>t. (file, n,
                          if t = [] then
                            ''Inline configuration command 'disable-next-line' specified a plugin with a blank id.''
                          else
                            ''Inline configuration command 'disable-next-line' unable to find a plugin with the id ''
                            @ [CHR 0x27] @ t @ [CHR 0x27] @ ''.''))
                  (filter (\<lambda>t. t = [] \<or> all_ids t = None) toks)
           \<and> document_pragmas st' =
                (if ids = {} then document_pragmas st
                 else (document_pragmas st)(n + 1 \<mapsto> ids))"
proof -
  have run: "compile_single_pragma file key all_ids st =
      Inr (handle_disable_next_line command_data idx file n all_ids
             ''disable-next-line'' st)"
    using assms(3,4) by (simp add: compile_single_pragma_def)
  have "split (slice_from command_data (int idx)) (CHR '','') = pieces"
    unfolding assms(5) using assms(6,7) by (rule split_join)
  then show ?thesis
    unfolding run toks_def ids_def
    by (simp add: handle_disable_next_line_result Let_def
        msg_blank_id_text msg_unknown_id_text)
qed

theorem disable_next_line_unknown_ids_witness:
  "(\<exists>st'. compile_single_pragma ''a.md'' 3 demo_plugins
            (demo_state 3 ''<!-- pyml disable-next-line zzz, MD009,, Yyy -->'') = Inr st'
         \<and> failures st' =
              [(''a.md'', 3,
                ''Inline configuration command 'disable-next-line' unable to find a plugin with the id 'zzz'.''),
               (''a.md'', 3,
                ''Inline configuration command 'disable-next-line' specified a plugin with a blank id.''),
               (''a.md'', 3,
                ''Inline configuration command 'disable-next-line' unable to find a plugin with the id 'yyy'.'')]
         \<and> document_pragmas st' = [4 \<mapsto> {''md009''}])
   \<and> (\<exists>st'. compile_single_pragma ''a.md'' 3 demo_plugins
            (demo_state 3 (''<!-- pyml disable-next-line'' @ [CHR 0x09] @ ''zzz -->'')) = Inr st'
         \<and> failures st' =
              [(''a.md'', 3,
                ''Inline configuration command 'disable-next-line' unable to find a plugin with the id 'zzz'.'')]
         \<and> document_pragmas st' = Map.empty)"
proof
  let ?line = "''<!-- pyml disable-next-line zzz, MD009,, Yyy -->''"
  let ?pieces = "['' zzz'', '' MD009'', [], '' Yyy '']"
  have present: "dict_get (pragma_lines (demo_state 3 ?line)) 3 = Some ?line"
    by (simp add: demo_state_def dict_get_def)
  have parts: "directive_parts 3 ?line
      = Inr (3, ''disable-next-line zzz, MD009,, Yyy '', 17, ''disable-next-line'')"
    by code_simp
  have joined: "slice_from ''disable-next-line zzz, MD009,, Yyy '' (int 17)
      = concat (map (\<lambda>p. p @ '','') (butlast ?pieces)) @ last ?pieces"
    by code_simp
  have pieces: "?pieces \<noteq> []" "\<forall>p \<in> set ?pieces. CHR '','' \<notin> set p"
    by simp_all
  have toks: "map (\<lambda>r. lower (strip r)) ?pieces = [''zzz'', ''md009'', [], ''yyy'']"
    by code_simp
  from disable_next_line_unknown_ids
         [OF present parts joined pieces, of "''a.md''" demo_plugins]
  show "\<exists>st'. compile_single_pragma ''a.md'' 3 demo_plugins (demo_state 3 ?line) = Inr st'
         \<and> failures st' =
              [(''a.md'', 3,
                ''Inline configuration command 'disable-next-line' unable to find a plugin with the id 'zzz'.''),
               (''a.md'', 3,
                ''Inline configuration command 'disable-next-line' specified a plugin with a blank id.''),
               (''a.md'', 3,
                ''Inline configuration command 'disable-next-line' unable to find a plugin with the id 'yyy'.'')]
         \<and> document_pragmas st' = [4 \<mapsto> {''md009''}]"
    unfolding toks by (simp add: map_filter_simps demo_plugins_def demo_state_def)
next
  let ?line = "''<!-- pyml disable-next-line'' @ [CHR 0x09] @ ''zzz -->''"
  let ?pieces = "[[CHR 0x09] @ ''zzz '']"
  have present: "dict_get (pragma_lines (demo_state 3 ?line)) 3 = Some ?line"
    by (simp add: demo_state_def dict_get_def)
  have parts: "directive_parts 3 ?line
      = Inr (3, ''disable-next-line'' @ [CHR 0x09] @ ''zzz '', 17, ''disable-next-line'')"
    by code_simp
  have joined: "slice_from (''disable-next-line'' @ [CHR 0x09] @ ''zzz '') (int 17)
      = concat (map (\<lambda>p. p @ '','') (butlast ?pieces)) @ last ?pieces"
    by code_simp
  have pieces: "?pieces \<noteq> []" "\<forall>p \<in> set ?pieces. CHR '','' \<notin> set p"
    by simp_all
  have toks: "map (\<lambda>r. lower (strip r)) ?pieces = [''zzz'']"
    by code_simp
  from disable_next_line_unknown_ids
         [OF present parts joined pieces, of "''a.md''" demo_plugins]
  show "\<exists>st'. compile_single_pragma ''a.md'' 3 demo_plugins (demo_state 3 ?line) = Inr st'
         \<and> failures st' =
              [(''a.md'', 3,
                ''Inline configuration command 'disable-next-line' unable to find a plugin with the id 'zzz'.'')]
         \<and> document_pragmas st' = Map.empty"
    unfolding toks by (simp add: map_filter_simps demo_plugins_def demo_state_def)
qed

text \<open>
  Claim C6.  Compiling a directive that is present in the pragma map raises no
  exception.  When its command is empty, the callback is called exactly once,
  with the message \<open>Inline configuration specified without command.\<close>; when its
  command is neither empty nor \<open>disable-next-line\<close>, the callback is called
  exactly once, with the message \<open>Inline configuration command '\<dots>' not
  understood.\<close>, which quotes the command.  In both cases the state after the
  call is the state before it with that one failure added, so no suppression
  entry is created.
\<close>

theorem other_command_reported:
  assumes "dict_get (pragma_lines st) key = Some line"
  shows "\<exists>cd idx command.
           directive_parts key line = Inr (\<bar>key\<bar>, cd, idx, command)
           \<and> (\<exists>st'. compile_single_pragma file key all_ids st = Inr st')
           \<and> (command = [] \<longrightarrow>
                compile_single_pragma file key all_ids st =
                  Inr (st\<lparr>failures := failures st @
                         [(file, \<bar>key\<bar>,
                           ''Inline configuration specified without command.'')]\<rparr>))
           \<and> (command \<noteq> [] \<and> command \<noteq> ''disable-next-line'' \<longrightarrow>
                compile_single_pragma file key all_ids st =
                  Inr (st\<lparr>failures := failures st @
                         [(file, \<bar>key\<bar>,
                           ''Inline configuration command '' @ [CHR 0x27] @ command
                           @ [CHR 0x27] @ '' not understood.'')]\<rparr>))"
proof -
  obtain cd idx command
    where parts: "directive_parts key line = Inr (if key > 0 then key else - key, cd, idx, command)"
    using directive_parts_total [of key line] by blast
  have abs: "(if key > 0 then key else - key) = \<bar>key\<bar>" by simp
  from parts assms show ?thesis
    unfolding abs
    by (auto simp: compile_single_pragma_def log_pragma_failure_def
        msg_without_command_text msg_not_understood_text)
qed

theorem other_command_reported_witness:
  "compile_single_pragma ''a.md'' 1 demo_plugins (demo_state 1 ''<!-- pyml -->'')
     = Inr ((demo_state 1 ''<!-- pyml -->'')
              \<lparr>failures :=
                 [(''a.md'', 1, ''Inline configuration specified without command.'')]\<rparr>)
   \<and> compile_single_pragma ''a.md'' (- 3) demo_plugins
       (demo_state (- 3) ''<!--- pyml Enable-Next-Line md009 -->'')
     = Inr ((demo_state (- 3) ''<!--- pyml Enable-Next-Line md009 -->'')
              \<lparr>failures :=
                 [(''a.md'', 3,
                   ''Inline configuration command 'enable-next-line' not understood.'')]\<rparr>)"
proof
  have present: "dict_get (pragma_lines (demo_state 1 ''<!-- pyml -->'')) 1
      = Some ''<!-- pyml -->''"
    by (simp add: demo_state_def dict_get_def)
  have parts: "directive_parts 1 ''<!-- pyml -->'' = Inr (1, [], 0, [])"
    by code_simp
  from other_command_reported [OF present, of "''a.md''" demo_plugins] parts
  show "compile_single_pragma ''a.md'' 1 demo_plugins (demo_state 1 ''<!-- pyml -->'')
     = Inr ((demo_state 1 ''<!-- pyml -->'')
              \<lparr>failures :=
                 [(''a.md'', 1, ''Inline configuration specified without command.'')]\<rparr>)"
    by (auto simp: demo_state_def)
next
  let ?line = "''<!--- pyml Enable-Next-Line md009 -->''"
  have present: "dict_get (pragma_lines (demo_state (- 3) ?line)) (- 3) = Some ?line"
    by (simp add: demo_state_def dict_get_def)
  have parts: "directive_parts (- 3) ?line
      = Inr (3, ''Enable-Next-Line md009 '', 16, ''enable-next-line'')"
    by code_simp
  from other_command_reported [OF present, of "''a.md''" demo_plugins] parts
  show "compile_single_pragma ''a.md'' (- 3) demo_plugins (demo_state (- 3) ?line)
     = Inr ((demo_state (- 3) ?line)
              \<lparr>failures :=
                 [(''a.md'', 3,
                   ''Inline configuration command 'enable-next-line' not understood.'')]\<rparr>)"
    by (auto simp: demo_state_def)
qed

text \<open>
  Claim C10.  A call of \<open>compile_single_pragma\<close> whose key is present in the
  pragma map returns normally and leaves the pragma map as it was.  When the
  directive fails validation (its command is empty, or is not
  \<open>disable-next-line\<close>, or its id list resolves to no plugin), the suppression
  table is unchanged too: the state after the call is the state before it with
  one or more failures reported to the callback, and nothing else.
\<close>

theorem compile_single_pragma_frame:
  fixes all_ids :: "string \<rightharpoonup> FoundPlugin"
  assumes "dict_get (pragma_lines st) key = Some line"
  shows "\<exists>st' cd idx command.
           directive_parts key line = Inr (\<bar>key\<bar>, cd, idx, command)
           \<and> compile_single_pragma file key all_ids st = Inr st'
           \<and> pragma_lines st' = pragma_lines st
           \<and> (command = [] \<or> command \<noteq> ''disable-next-line''
                \<or> set (map plugin_id
                      (List.map_filter (\<lambda>t. if t = [] then None else all_ids t)
                         (map (\<lambda>r. lower (strip r))
                            (split (slice_from cd (int idx)) (CHR '',''))))) = {}
               \<longrightarrow> document_pragmas st' = document_pragmas st
                   \<and> (\<exists>errors. errors \<noteq> []
                          \<and> st' = st\<lparr>failures := failures st @ errors\<rparr>))"
proof -
  obtain cd idx command
    where parts: "directive_parts key line = Inr (if key > 0 then key else - key, cd, idx, command)"
    using directive_parts_total [of key line] by blast
  have abs: "(if key > 0 then key else - key) = \<bar>key\<bar>" by simp
  let ?toks = "map (\<lambda>r. lower (strip r)) (split (slice_from cd (int idx)) (CHR '',''))"
  let ?found = "List.map_filter (\<lambda>t. if t = [] then None else all_ids t) ?toks"
  consider (empty) "command = []"
    | (other) "command \<noteq> []" "command \<noteq> ''disable-next-line''"
    | (disable) "command = ''disable-next-line''"
    by blast
  then show ?thesis
  proof cases
    case empty
    with parts assms show ?thesis
      unfolding abs
      by (auto simp: compile_single_pragma_def log_pragma_failure_def)
  next
    case other
    with parts assms show ?thesis
      unfolding abs
      by (auto simp: compile_single_pragma_def log_pragma_failure_def)
  next
    case disable
    have run: "compile_single_pragma file key all_ids st =
        Inr (handle_disable_next_line cd idx file \<bar>key\<bar> all_ids command st)"
      using parts assms disable unfolding abs by (simp add: compile_single_pragma_def)
    have same: "pragma_lines (handle_disable_next_line cd idx file \<bar>key\<bar> all_ids command st)
        = pragma_lines st"
      by (simp add: handle_disable_next_line_result Let_def)
    have none: "document_pragmas
          (handle_disable_next_line cd idx file \<bar>key\<bar> all_ids command st)
          = document_pragmas st
        \<and> (\<exists>errors. errors \<noteq> []
              \<and> handle_disable_next_line cd idx file \<bar>key\<bar> all_ids command st
                  = st\<lparr>failures := failures st @ errors\<rparr>)"
      if no_ids: "set (map plugin_id ?found) = {}"
    proof -
      from no_ids have "?found = []" by simp
      then have all_bad: "\<forall>t \<in> set ?toks. (if t = [] then None else all_ids t) = None"
        by (simp only: map_filter_Nil_iff)
      then have keep: "filter (\<lambda>t. t = [] \<or> all_ids t = None) ?toks = ?toks"
        by (auto simp: filter_id_conv split: if_splits)
      let ?errors = "map (\<lambda>t. (file, \<bar>key\<bar>,
                               if t = [] then msg_blank_id command
                               else msg_unknown_id command t)) ?toks"
      have "?errors \<noteq> []"
        by (simp add: split_not_Nil)
      moreover have "handle_disable_next_line cd idx file \<bar>key\<bar> all_ids command st
          = st\<lparr>failures := failures st @ ?errors\<rparr>"
        using no_ids keep by (simp add: handle_disable_next_line_result Let_def)
      ultimately show ?thesis
        by (intro conjI exI [of _ ?errors]) simp_all
    qed
    from parts run same none disable show ?thesis
      unfolding abs by auto
  qed
qed

theorem compile_single_pragma_frame_witness:
  "\<exists>st'. compile_single_pragma ''a.md'' 3 demo_plugins
            (demo_state 3 ''<!-- pyml disable-next-line zzz, Yyy -->'') = Inr st'
      \<and> pragma_lines st' = [(3, ''<!-- pyml disable-next-line zzz, Yyy -->'')]
      \<and> document_pragmas st' = Map.empty
      \<and> failures st' =
           [(''a.md'', 3,
             ''Inline configuration command 'disable-next-line' unable to find a plugin with the id 'zzz'.''),
            (''a.md'', 3,
             ''Inline configuration command 'disable-next-line' unable to find a plugin with the id 'yyy'.'')]"
proof -
  let ?line = "''<!-- pyml disable-next-line zzz, Yyy -->''"
  have present: "dict_get (pragma_lines (demo_state 3 ?line)) 3 = Some ?line"
    by (simp add: demo_state_def dict_get_def)
  have parts: "directive_parts 3 ?line
      = Inr (3, ''disable-next-line zzz, Yyy '', 17, ''disable-next-line'')"
    by code_simp
  have toks: "map (\<lambda>r. lower (strip r))
      (split (slice_from ''disable-next-line zzz, Yyy '' (int 17)) (CHR '',''))
      = [''zzz'', ''yyy'']"
    by code_simp
  have no_ids: "set (map plugin_id
      (List.map_filter (\<lambda>t. if t = [] then None else demo_plugins t)
         (map (\<lambda>r. lower (strip r))
            (split (slice_from ''disable-next-line zzz, Yyy '' (int 17)) (CHR '','' ))))) = {}"
    unfolding toks by (simp add: map_filter_simps demo_plugins_def)
  have run: "compile_single_pragma ''a.md'' 3 demo_plugins (demo_state 3 ?line)
      = Inr (handle_disable_next_line ''disable-next-line zzz, Yyy '' 17 ''a.md'' 3
               demo_plugins ''disable-next-line'' (demo_state 3 ?line))"
    using present parts by (simp add: compile_single_pragma_def)
  have reported: "failures (handle_disable_next_line ''disable-next-line zzz, Yyy '' 17
        ''a.md'' 3 demo_plugins ''disable-next-line'' (demo_state 3 ?line))
      = [(''a.md'', 3,
          ''Inline configuration command 'disable-next-line' unable to find a plugin with the id 'zzz'.''),
         (''a.md'', 3,
          ''Inline configuration command 'disable-next-line' unable to find a plugin with the id 'yyy'.'')]"
    unfolding handle_disable_next_line_result Let_def toks
    by (simp add: map_filter_simps demo_plugins_def demo_state_def
        msg_unknown_id_def quoted_def)
  from compile_single_pragma_frame [OF present, of "''a.md''" demo_plugins] parts no_ids
       run reported
  show ?thesis
    by (auto simp: demo_state_def)
qed

section \<open>Serialization of a pragma token\<close>

text \<open>
  Claim C9.  A pragma token built from the dictionary with the single entry
  \<open>1: "<!-- pyml disable-next-line no-trailing-spaces -->"\<close> carries as its
  serialization payload \<open>extra_data\<close> exactly the text
  \<open>1:<!-- pyml disable-next-line no-trailing-spaces -->\<close>.
\<close>

theorem PragmaToken_singleton_extra_data:
  "extra_data (PragmaToken_init token_pragma
       [(1, ''<!-- pyml disable-next-line no-trailing-spaces -->'')])
     = ''1:<!-- pyml disable-next-line no-trailing-spaces -->''"
  by code_simp

text \<open>
  Claim C3, as the claim states it, fails.  Line 1 of a document carries a
  directive with the standard prefix and line 2 one with the alternate prefix;
  recognition stores the keys \<open>1\<close> and \<open>-2\<close> in this order, the map is iterated
  in this order, which is not the numeric one, and the serialization of the
  pragma token lists key \<open>1\<close> before key \<open>-2\<close>.
\<close>

theorem pragma_lines_order_counterexample:
  "look_for_pragmas \<lparr>line_number = 2, index_number = 0\<rparr>
       ''<!--- pyml disable-next-line md009 -->'' 0 None
       (snd (look_for_pragmas \<lparr>line_number = 1, index_number = 0\<rparr>
               ''<!-- pyml disable-next-line md009 -->'' 0 None []))
     = (True, [(1, ''<!-- pyml disable-next-line md009 -->''),
               (- 2, ''<!--- pyml disable-next-line md009 -->'')])
   \<and> dict_keys [(1 :: int, ''<!-- pyml disable-next-line md009 -->''),
                  (- 2, ''<!--- pyml disable-next-line md009 -->'')] = [1, - 2]
   \<and> \<not> sorted [1 :: int, - 2]
   \<and> extra_data (PragmaToken_init ''pragma''
         [(1, ''<!-- pyml disable-next-line md009 -->''),
          (- 2, ''<!--- pyml disable-next-line md009 -->'')])
       = ''1:<!-- pyml disable-next-line md009 -->;-2:<!--- pyml disable-next-line md009 -->''"
  by code_simp

text \<open>
  Claim C3, amended.  A pragma map is iterated in insertion order: for the map
  built by storing the pairs \<open>kvs\<close> one after the other into the empty map, the
  keys come in the order in which each was stored first, and each key carries
  the text stored for it last.  The serialization of the pragma token
  concatenates one piece \<open>;key:text\<close> per key in that order and drops the
  leading separator.
\<close>

theorem pragma_lines_insertion_order:
  fixes kvs :: "(int \<times> string) list"
  defines "pl \<equiv> fold (\<lambda>(k, v) d. dict_setitem d k v) kvs []"
  shows "dict_keys pl = rev (remdups (rev (map fst kvs)))
         \<and> extra_data (PragmaToken_init token_pragma pl) =
             drop 1 (concat (map (\<lambda>k. '';'' @ str_int k @ '':'' @ the (map_of (rev kvs) k))
                               (dict_keys pl)))"
proof -
  have keys: "dict_keys pl = rev (remdups (rev (map fst kvs)))"
    unfolding pl_def by (rule fold_setitem_keys)
  have "dict_get pl k = Some (the (map_of (rev kvs) k))" if "k \<in> set (dict_keys pl)" for k
  proof -
    from that keys have "k \<in> fst ` set kvs" by simp
    then have "k \<in> fst ` set (rev kvs)" by simp
    then obtain v where "map_of (rev kvs) k = Some v"
      by (metis domD dom_map_of_conv_image_fst)
    then show ?thesis
      unfolding pl_def by (simp add: fold_setitem_get)
  qed
  then have "serialized_pragmas pl =
      concat (map (\<lambda>k. '';'' @ str_int k @ '':'' @ the (map_of (rev kvs) k)) (dict_keys pl))"
    unfolding serialized_pragmas_def
    by (intro arg_cong [where f = concat] map_cong) simp_all
  then show ?thesis
    using keys by (simp add: PragmaToken_init_def slice_from_1)
qed

section \<open>The scan of one file\<close>

text \<open>
  Claim C4, as the claim states it, fails.  The file \<open>b.md\<close> has two lines and
  its scan completes without error, and the completed-file notification receives
  3, not 2.
\<close>

theorem scan_file_completed_counterexample:
  "length (get_lines demo_collaborators ''b.md'') = 2
   \<and> scan_file demo_collaborators demo_arguments ''b.md'' ((), [])
       = ([StartingNewFile ''b.md'', NextLine 1 ''y'', NextLine 2 ''z'',
           TransformFromProvider (Some [''y'', ''z'']), NextToken ''t'', CompletedFile 3],
          Inr ())
   \<and> CompletedFile 2 \<notin> set (fst (scan_file demo_collaborators demo_arguments ''b.md'' ((), [])))"
  by code_simp

text \<open>
  Claim C4, amended.  When the scan of a file of \<open>N\<close> lines completes without
  error, the calls it made are, in this order: the start of the file; the line
  hook for the lines \<open>1, 2, \<dots>, N\<close>, each with its text; the tokenizer; the
  token hook for each token in the order of the tokenizer; and the
  completed-file notification, which receives \<open>N + 1\<close>, the value of the line
  counter after the last line.  The raw-line pass is thus finished before
  tokenization begins.
\<close>

theorem scan_file_calls:
  fixes pm :: "('p, 'c, 'tok) collaborators" and next_file :: string and args :: arguments
  defines "lines \<equiv> get_lines pm next_file"
  defines "source_provider \<equiv> (if x_test_scan_fault args then None else Some lines)"
  assumes "scan_file pm args next_file (p, tr) = (tr', Inr p')"
  shows "\<exists>actual_tokens.
           transform_from_provider pm source_provider = Inr actual_tokens
           \<and> tr' = tr @ [StartingNewFile next_file]
                  @ map (\<lambda>(n, l). NextLine n l) (zip [1..int (length lines)] lines)
                  @ [TransformFromProvider source_provider]
                  @ map NextToken actual_tokens
                  @ [CompletedFile (int (length lines) + 1)]"
proof -
  from assms(3) obtain ctx p1 tr2 line_no p2 actual_tokens tr3 p3
    where start: "starting_new_file pm next_file p = Inr (ctx, p1)"
      and raw: "scan_lines pm ctx 1 lines (p1, tr @ [StartingNewFile next_file])
                  = (tr2, Inr (line_no, p2))"
      and tokenize: "transform_from_provider pm source_provider = Inr actual_tokens"
      and toks: "scan_tokens pm ctx actual_tokens
                   (p2, tr2 @ [TransformFromProvider source_provider]) = (tr3, Inr p3)"
      and final: "tr' = tr3 @ [CompletedFile line_no]"
    unfolding lines_def source_provider_def
    by (auto simp: Let_def split: sum.splits prod.splits)
  from scan_lines_trace [OF raw]
  have "line_no = int (length lines) + 1"
    and "tr2 = tr @ [StartingNewFile next_file]
           @ map (\<lambda>(n, l). NextLine n l) (zip [1..int (length lines)] lines)"
    by simp_all
  with scan_tokens_trace [OF toks] tokenize final show ?thesis by simp
qed

theorem scan_file_calls_witness:
  "\<exists>actual_tokens.
      transform_from_provider demo_collaborators (Some [''y'', ''z'']) = Inr actual_tokens
      \<and> [StartingNewFile ''b.md'', NextLine 1 ''y'', NextLine 2 ''z'',
          TransformFromProvider (Some [''y'', ''z'']), NextToken ''t'', CompletedFile 3]
         = [StartingNewFile ''b.md''] @ [NextLine 1 ''y'', NextLine 2 ''z'']
           @ [TransformFromProvider (Some [''y'', ''z''])]
           @ map NextToken actual_tokens @ [CompletedFile 3]"
proof -
  have run: "scan_file demo_collaborators demo_arguments ''b.md'' ((), [])
       = ([StartingNewFile ''b.md'', NextLine 1 ''y'', NextLine 2 ''z'',
           TransformFromProvider (Some [''y'', ''z'']), NextToken ''t'', CompletedFile 3],
          Inr ())"
    by code_simp
  have lines: "get_lines demo_collaborators ''b.md'' = [''y'', ''z'']"
    by code_simp
  have numbers: "zip [1..int (length [''y'', ''z''])] [''y'', ''z''] = [(1, ''y''), (2, ''z'')]"
    by code_simp
  from scan_file_calls [OF run] show ?thesis
    unfolding lines numbers by (simp add: demo_arguments_def)
qed

section \<open>The run over the files\<close>

text \<open>
  Claim C1, as the claim states it, fails.  In a run over \<open>a.md\<close> and \<open>b.md\<close>
  the tokenizer raises on \<open>a.md\<close>; the run logs and prints the error and exits
  with status 1, and \<open>b.md\<close> is never scanned.
\<close>

theorem scan_failure_counterexample:
  "scan_file demo_collaborators demo_arguments ''a.md'' ((), [])
     = ([StartingNewFile ''a.md'', NextLine 1 ''x'', TransformFromProvider (Some [''x''])],
        Inl (BadTokenizationError ''boom''))
   \<and> main_scan demo_collaborators demo_arguments [''a.md'', ''b.md''] ((), [])
     = ([StartingNewFile ''a.md'', NextLine 1 ''x'', TransformFromProvider (Some [''x''])],
        [LoggerWarning
           (''BadTokenizationError encountered while scanning 'a.md':'' @ [CHR 0x0A] @ ''boom''),
         ErrorText
           (''BadTokenizationError encountered while scanning 'a.md':'' @ [CHR 0x0A] @ ''boom'')],
        Some (SystemExit 1))
   \<and> StartingNewFile ''b.md''
       \<notin> set (fst (main_scan demo_collaborators demo_arguments [''a.md'', ''b.md''] ((), [])))"
  by code_simp

text \<open>
  Claim C1, amended.  When the files before \<open>next_file\<close> have been scanned
  without error and the scan of \<open>next_file\<close> raises a tokenization error or a
  plugin error, the run reports one error text that names the exception, the
  file and the cause: it logs the text as a warning together with the
  traceback, prints the text to the standard error stream, and prints the stack
  trace if that was asked for.  It then exits with status 1.  The calls made are
  those made up to the failure: no file after \<open>next_file\<close> is scanned.
\<close>

theorem scan_failure_ends_run:
  fixes next_file :: string and this_exception :: scan_error
  defines "formatted_error \<equiv>
     (case this_exception of
        BadPluginError message \<Rightarrow>
          ''BadPluginError encountered while scanning '' @ [CHR 0x27] @ next_file
          @ [CHR 0x27] @ '':'' @ [CHR 0x0A] @ message
      | BadTokenizationError message \<Rightarrow>
          ''BadTokenizationError encountered while scanning '' @ [CHR 0x27] @ next_file
          @ [CHR 0x27] @ '':'' @ [CHR 0x0A] @ message)"
  assumes "scan_files pm args before (p, tr) = (tr1, out, Inr p1)"
      and "scan_file pm args next_file (p1, tr1) = (tr2, Inl this_exception)"
  shows "main_scan pm args (before @ next_file # remaining) (p, tr) =
           (tr2,
            LoggerWarning formatted_error # ErrorText formatted_error
              # (if show_stack_trace args then [StackTrace] else []),
            Some (SystemExit 1))"
proof -
  have "scan_files pm args (before @ next_file # remaining) (p, tr)
      = scan_files pm args (next_file # remaining) (p1, tr1)"
    using assms(2) by (rule scan_files_append)
  then show ?thesis
    using assms(3) unfolding formatted_error_def
    by (cases this_exception)
       (simp_all add: main_scan_def handle_scan_error_def handle_error_def quoted_def)
qed

theorem scan_failure_ends_run_witness:
  "main_scan demo_collaborators demo_arguments ([''README.md''] @ ''a.md'' # [''b.md''])
       ((), [])
     = ([StartingNewFile ''README.md'', NextLine 1 ''y'', NextLine 2 ''z'',
         TransformFromProvider (Some [''y'', ''z'']), NextToken ''t'', CompletedFile 3,
         StartingNewFile ''a.md'', NextLine 1 ''x'', TransformFromProvider (Some [''x''])],
        [LoggerWarning
           (''BadTokenizationError encountered while scanning 'a.md':'' @ [CHR 0x0A] @ ''boom''),
         ErrorText
           (''BadTokenizationError encountered while scanning 'a.md':'' @ [CHR 0x0A] @ ''boom'')],
        Some (SystemExit 1))"
proof -
  have before: "scan_files demo_collaborators demo_arguments [''README.md''] ((), [])
      = ([StartingNewFile ''README.md'', NextLine 1 ''y'', NextLine 2 ''z'',
          TransformFromProvider (Some [''y'', ''z'']), NextToken ''t'', CompletedFile 3],
         [], Inr ())"
    by code_simp
  have failing: "scan_file demo_collaborators demo_arguments ''a.md''
        ((), [StartingNewFile ''README.md'', NextLine 1 ''y'', NextLine 2 ''z'',
              TransformFromProvider (Some [''y'', ''z'']), NextToken ''t'', CompletedFile 3])
      = ([StartingNewFile ''README.md'', NextLine 1 ''y'', NextLine 2 ''z'',
          TransformFromProvider (Some [''y'', ''z'']), NextToken ''t'', CompletedFile 3,
          StartingNewFile ''a.md'', NextLine 1 ''x'', TransformFromProvider (Some [''x''])],
         Inl (BadTokenizationError ''boom''))"
    by code_simp
  from scan_failure_ends_run [OF before failing, of "[''b.md'']"]
  show ?thesis by (simp add: demo_arguments_def)
qed

end
